theory Spec2Isabelle
  imports Main "HOL-Library.Word"
begin

section \<open>JavaScript values\<close>

text \<open>
  The adapter (src/index.js) handles strings, request option objects and the JSON bodies
  of HTTP responses. A JavaScript value is modelled by \<open>jsval\<close>. The numbers are the
  integers from \<open>-2^53\<close> to \<open>2^53 - 1\<close> (project ids, status codes), which a double
  holds exactly and the runtime prints in decimal; they are kept in a 54-bit word, read
  as a signed number, so that no other number can be written. An object is the list of
  its own properties. \<open>JBuiltin name\<close> is the member that every object inherits from
  \<open>Object.prototype\<close> under that name: a builtin function, and for \<open>__proto__\<close> the
  prototype object itself.
\<close>

datatype jsval =
    JUndefined
  | JNull
  | JBool bool
  | JNum "54 word"
  | JStr string
  | JArr "jsval list"
  | JObj "(string \<times> jsval) list"
  | JBuiltin string

text \<open>
  What the program can raise: the runtime's TypeError (property read on null or
  undefined, call of a non-function), the runtime's ReferenceError (read of an undeclared
  identifier) and \<open>new Error(message)\<close>, the only error src/index.js constructs itself.
\<close>

datatype error = TypeError | ReferenceError | Error string

text \<open>A settled promise, or the result of a callback: \<open>Inl\<close> is a throw or a rejection.\<close>

definition then_do :: "error + 'a \<Rightarrow> ('a \<Rightarrow> error + 'b) \<Rightarrow> error + 'b" where
  "then_do m f = (case m of Inl e \<Rightarrow> Inl e | Inr v \<Rightarrow> f v)"

text \<open>Truthiness, as tested by \<open>!x\<close>, \<open>x ? a : b\<close> and \<open>x || y\<close>.\<close>

fun truthy :: "jsval \<Rightarrow> bool" where
  "truthy JUndefined = False"
| "truthy JNull = False"
| "truthy (JBool b) = b"
| "truthy (JNum n) = (n \<noteq> 0)"
| "truthy (JStr s) = (s \<noteq> [])"
| "truthy (JArr xs) = True"
| "truthy (JObj kvs) = True"
| "truthy (JBuiltin name) = True"

text \<open>Decimal digits of a natural number, most significant first.\<close>

function digits :: "nat \<Rightarrow> string" where
  "digits n =
     (if n < 10 then [''0123456789'' ! n]
      else digits (n div 10) @ [''0123456789'' ! (n mod 10)])"
  by pat_completeness auto
termination
  by (relation "measure id") auto

declare digits.simps [simp del]

definition show_int :: "int \<Rightarrow> string" where
  "show_int i = (if i < 0 then CHR ''-'' # digits (nat (- i)) else digits (nat i))"

text \<open>\<open>Array.prototype.join\<close>.\<close>

fun join :: "string \<Rightarrow> string list \<Rightarrow> string" where
  "join sep [] = []"
| "join sep [x] = x"
| "join sep (x # y # ys) = x @ sep @ join sep (y # ys)"

text \<open>The results of a list of conversions, or the first error among them.\<close>

fun all_of :: "(error + 'a) list \<Rightarrow> error + 'a list" where
  "all_of [] = Inr []"
| "all_of (x # xs) =
     (case x of
        Inl e \<Rightarrow> Inl e
      | Inr v \<Rightarrow> (case all_of xs of Inl e \<Rightarrow> Inl e | Inr vs \<Rightarrow> Inr (v # vs)))"

text \<open>
  The string a template literal \<open>`${v}`\<close> inserts for a value (ToString). An object is
  converted by its \<open>toString\<close> method: the inherited one gives \<open>[object Object]\<close>,
  but an own property \<open>toString\<close> of a JSON object is not a function and hides it, the
  inherited \<open>valueOf\<close> gives the object back, and the conversion throws a TypeError. An
  array is its elements joined by commas, null and undefined elements being empty, and
  throws when an element does. A builtin function prints as Node prints native code.
\<close>

fun to_string :: "jsval \<Rightarrow> error + string" where
  "to_string JUndefined = Inr ''undefined''"
| "to_string JNull = Inr ''null''"
| "to_string (JBool b) = Inr (if b then ''true'' else ''false'')"
| "to_string (JNum n) = Inr (show_int (sint n))"
| "to_string (JStr s) = Inr s"
| "to_string (JArr xs) =
     (case all_of (map (\<lambda>x. if x = JUndefined \<or> x = JNull then Inr [] else to_string x) xs) of
        Inl e \<Rightarrow> Inl e
      | Inr ss \<Rightarrow> Inr (join '','' ss))"
| "to_string (JObj kvs) =
     (if map_of kvs ''toString'' = None then Inr ''[object Object]'' else Inl TypeError)"
| "to_string (JBuiltin name) =
     Inr (if name = ''__proto__'' then ''[object Object]''
          else ''function '' @ (if name = ''constructor'' then ''Object'' else name)
               @ ''() { [native code] }'')"

text \<open>A string that may be undefined (a missing array element, an unset option).\<close>

definition opt_val :: "string option \<Rightarrow> jsval" where
  "opt_val s = (case s of None \<Rightarrow> JUndefined | Some x \<Rightarrow> JStr x)"

text \<open>What a template literal inserts for such a value; this conversion cannot throw.\<close>

definition opt_str :: "string option \<Rightarrow> string" where
  "opt_str s = (case s of None \<Rightarrow> ''undefined'' | Some x \<Rightarrow> x)"

text \<open>
  \<open>key in ref\<close> together with \<open>ref[key]\<close>, for the property names this program reads
  (body, error, message, id, name, author, ...): none of them is an index, \<open>length\<close>
  or a name inherited from a prototype, so an object has them as own properties, a
  builtin function has its \<open>name\<close>, and no other value has any of them.
\<close>

definition own_property :: "jsval \<Rightarrow> string \<Rightarrow> jsval option" where
  "own_property ref key =
     (case ref of
        JObj kvs \<Rightarrow> map_of kvs key
      | JBuiltin name \<Rightarrow>
          if key = ''name'' \<and> name \<noteq> ''__proto__''
          then Some (JStr (if name = ''constructor'' then ''Object'' else name))
          else None
      | _ \<Rightarrow> None)"

text \<open>
  The property read \<open>ref.key\<close>: a TypeError on null and undefined, undefined when the
  property is missing.
\<close>

definition getProp :: "jsval \<Rightarrow> string \<Rightarrow> error + jsval" where
  "getProp ref key =
     (if ref = JUndefined \<or> ref = JNull then Inl TypeError
      else case own_property ref key of None \<Rightarrow> Inr JUndefined | Some v \<Rightarrow> Inr v)"

text \<open>
  \<open>String.prototype.split\<close> with a one-character separator: the fields between the
  separators, one more than there are separators; the empty string has one empty field.
\<close>

fun split_str :: "char \<Rightarrow> string \<Rightarrow> string list" where
  "split_str sep [] = [[]]"
| "split_str sep (c # cs) =
     (if c = sep then [] # split_str sep cs
      else case split_str sep cs of
             [] \<Rightarrow> [[c]]
           | f # fs \<Rightarrow> (c # f) # fs)"

text \<open>The method call \<open>v.split(sep)\<close>: only a string has the method.\<close>

definition call_split :: "jsval \<Rightarrow> char \<Rightarrow> error + string list" where
  "call_split v sep = (case v of JStr s \<Rightarrow> Inr (split_str sep s) | _ \<Rightarrow> Inl TypeError)"

text \<open>An array element read \<open>xs[i]\<close>: undefined (\<open>None\<close>) past the end.\<close>

definition element :: "'a list \<Rightarrow> nat \<Rightarrow> 'a option" where
  "element xs i = (if i < length xs then Some (xs ! i) else None)"

section \<open>Response validation (checkResponseError, lines 51-64)\<close>

text \<open>
  The HTTP response the breaker resolves with: a numeric status code (three digits on
  the wire, printed in decimal), the parsed body, and whatever other properties the
  response object has.
\<close>

record response =
  statusCode :: int
  body :: jsval
  rest :: "(string \<times> jsval) list"

definition response_obj :: "response \<Rightarrow> jsval" where
  "response_obj r =
     JObj ((''statusCode'', JNum (word_of_int (statusCode r))) # (''body'', body r) # rest r)"

text \<open>
  Modelled from the spec: \<open>Hoek.reach\<close> (package hoek) is not under src/. The spec has
  the error message and reason fall back to a default "when the provider's structured
  error fields are absent"; the library walks the dot-separated chain from the object and
  gives the default as soon as the current value is falsy or is not an object with the
  next key.
\<close>

fun reach_path :: "jsval \<Rightarrow> string list \<Rightarrow> jsval \<Rightarrow> jsval" where
  "reach_path ref [] dflt = ref"
| "reach_path ref (key # path) dflt =
     (if \<not> truthy ref then dflt
      else case own_property ref key of
             None \<Rightarrow> dflt
           | Some v \<Rightarrow> reach_path v path dflt)"

text \<open>
  Modelled from the spec: \<open>Hoek.reach(obj, chain, {default})\<close>, the chain being split
  at its dots.
\<close>

definition Hoek_reach :: "jsval \<Rightarrow> string \<Rightarrow> jsval \<Rightarrow> jsval" where
  "Hoek_reach obj chain dflt = reach_path obj (split_str CHR ''.'' chain) dflt"

text \<open>
  \<open>JSON.stringify\<close> is a builtin of the runtime and a parameter of the model: it maps
  a value to its JSON text (a string), or to undefined. The message of the Error is a
  template literal: the two values are converted to strings, the message first, and a
  conversion that throws replaces the Error by its TypeError.
\<close>

definition checkResponseError :: "(jsval \<Rightarrow> jsval) \<Rightarrow> response \<Rightarrow> error + unit" where
  "checkResponseError JSON_stringify response =
     (if statusCode response \<ge> 200 \<and> statusCode response < 300 then Inr ()
      else
        let errorMessage = Hoek_reach (response_obj response) ''body.error.message''
              (JStr (''SCM service unavailable ('' @ show_int (statusCode response) @ '').''));
            errorReason = Hoek_reach (response_obj response) ''body.error.detail.required''
              (JSON_stringify (body response))
        in then_do (to_string errorMessage) (\<lambda>message.
           then_do (to_string errorReason) (\<lambda>reason.
             Inl (Error (message @ '' Reason '' @ [CHR 0x22] @ reason @ [CHR 0x22])))))"

text \<open>
  The specification's reading of a structured error field: the value found by following
  the keys through nested objects, absent when an object on the way lacks the key or the
  value there is not an object.
\<close>

fun structured_field :: "jsval \<Rightarrow> string list \<Rightarrow> jsval option" where
  "structured_field v [] = Some v"
| "structured_field v (key # path) =
     (case v of
        JObj kvs \<Rightarrow>
          (case map_of kvs key of None \<Rightarrow> None | Some w \<Rightarrow> structured_field w path)
      | _ \<Rightarrow> None)"

section \<open>SCM URI codec\<close>

text \<open>
  The SCM URI is written by \<open>_parseUrl\<close> (line 196), the template literal
  \<open>`${hostname}:${id}:${branch}`\<close>, and read back by the destructuring
  \<open>const [scmHost, scmId, scmBranch] = config.scmUri.split(':')\<close> at the head of
  \<open>lookupScmUri\<close> (line 135) and of the operations that follow it. The read takes the
  first three fields; a field that is not there is undefined, further fields are ignored.
\<close>

definition encodeScmUri :: "string \<Rightarrow> string \<Rightarrow> string \<Rightarrow> string" where
  "encodeScmUri hostname projectId branch = hostname @ '':'' @ projectId @ '':'' @ branch"

record scm_uri =
  scmHost :: "string option"
  scmId :: "string option"
  scmBranch :: "string option"

definition decodeScmUri :: "string \<Rightarrow> error + scm_uri" where
  "decodeScmUri scmUri =
     (let fields = split_str CHR '':'' scmUri
      in Inr \<lparr>scmHost = element fields 0, scmId = element fields 1,
              scmBranch = element fields 2\<rparr>)"

section \<open>Checkout URL parsing (getRepoInfo, lines 72-82)\<close>

text \<open>
  \<open>regex.exec(url)\<close> gives null (\<open>None\<close>) when the pattern does not match, else the
  array of the match and its groups; a group that took no part in the match is undefined.
  \<open>Schema.config.regex.CHECKOUT_URL\<close> comes from the package screwdriver-data-schema
  and is a parameter of \<open>getRepoInfo\<close>.
\<close>

type_synonym regex = "string \<Rightarrow> string option list option"

definition MATCH_COMPONENT_HOSTNAME :: nat where "MATCH_COMPONENT_HOSTNAME = 1"
definition MATCH_COMPONENT_USER :: nat where "MATCH_COMPONENT_USER = 2"
definition MATCH_COMPONENT_BRANCH :: nat where "MATCH_COMPONENT_BRANCH = 4"
definition MATCH_COMPONENT_REPO :: nat where "MATCH_COMPONENT_REPO = 3"

record repo_info =
  hostname :: "string option"
  repo :: "string option"
  branch :: string
  username :: "string option"

definition matched_at :: "string option list \<Rightarrow> nat \<Rightarrow> string option" where
  "matched_at matched i = (case element matched i of None \<Rightarrow> None | Some g \<Rightarrow> g)"

text \<open>
  \<open>matched[MATCH_COMPONENT_HOSTNAME]\<close> on a null \<open>matched\<close> is a TypeError, and so is
  \<open>.slice(1)\<close> on an undefined branch group; \<open>.slice(1)\<close> drops the leading \<open>#\<close>.
\<close>

definition getRepoInfo :: "regex \<Rightarrow> string \<Rightarrow> error + repo_info" where
  "getRepoInfo regex checkoutUrl =
     (case regex checkoutUrl of
        None \<Rightarrow> Inl TypeError
      | Some matched \<Rightarrow>
          (case matched_at matched MATCH_COMPONENT_BRANCH of
             None \<Rightarrow> Inl TypeError
           | Some b \<Rightarrow>
               Inr \<lparr>hostname = matched_at matched MATCH_COMPONENT_HOSTNAME,
                    repo = matched_at matched MATCH_COMPONENT_REPO,
                    branch = drop 1 b,
                    username = matched_at matched MATCH_COMPONENT_USER\<rparr>))"

text \<open>White space, and the text after the \<open>protocol://\<close> a string starts with.\<close>

definition is_space :: "char \<Rightarrow> bool" where
  "is_space c = (c = CHR '' '' \<or> c = CHR 0x09 \<or> c = CHR 0x0A \<or> c = CHR 0x0D)"

fun strip_protocol :: "string \<Rightarrow> string option" where
  "strip_protocol [] = None"
| "strip_protocol (c # cs) =
     (if c = CHR ''/'' \<or> c = CHR '':'' \<or> is_space c then None
      else if take 3 cs = ''://'' then Some (drop 3 cs)
      else strip_protocol cs)"

text \<open>
  Modelled from the spec: the pattern \<open>Schema.config.regex.CHECKOUT_URL\<close> is not under
  src/. The spec gives it as "a fixed pattern matching
  \<open>protocol://host/namespace/repo#branchRef\<close>", the \<open>#branchRef\<close> being optional: a
  protocol, then three non-empty path fields free of white space and colons, then
  possibly \<open>#\<close> and a non-empty branch. The groups are host, namespace, repo and the
  branch with its \<open>#\<close>.
\<close>

definition CHECKOUT_URL :: regex where
  "CHECKOUT_URL url =
     (case strip_protocol url of
        None \<Rightarrow> None
      | Some addr \<Rightarrow>
          let path = takeWhile (\<lambda>c. c \<noteq> CHR ''#'') addr;
              suffix = dropWhile (\<lambda>c. c \<noteq> CHR ''#'') addr
          in if list_ex is_space addr \<or> CHR '':'' \<in> set path \<or> suffix = ''#'' then None
             else (case split_str CHR ''/'' path of
                     [host, namespace, name] \<Rightarrow>
                       if host = [] \<or> namespace = [] \<or> name = [] then None
                       else Some [Some url, Some host, Some namespace, Some name,
                                  if suffix = [] then None else Some suffix]
                   | _ \<Rightarrow> None))"

section \<open>The adapter object and the circuit breaker\<close>

text \<open>
  Every outbound HTTP call goes to the circuit breaker (package circuit-fuses, wrapping
  the package request). The provider and the breaker are the environment of the model: a
  gateway answers a request, given the requests issued before it, with the response its
  promise resolves with or the error it rejects with. The trace lists the requests issued
  so far, oldest first.
\<close>

type_synonym trace = "jsval list"

type_synonym gateway = "trace \<Rightarrow> jsval \<Rightarrow> error + response"

text \<open>
  The breaker object \<open>new Breaker(Request, fusebox)\<close>: its method \<open>runCommand\<close> and,
  when the object can be called as a function, what the call does (\<open>None\<close>: the object
  is not callable, and calling it is a TypeError).
\<close>

record breaker_obj =
  runCommand :: gateway
  invoke :: "gateway option"

record scm_config =
  gitlabProtocol :: string
  gitlabHost :: "string option"

text \<open>
  The adapter instance \<open>this\<close>: its validated configuration and the breaker-valued
  properties that have been assigned, by name; reading any other name gives undefined.
\<close>

record GitlabScm =
  config :: scm_config
  field :: "string \<Rightarrow> breaker_obj option"

text \<open>
  The constructor (lines 99-123), given the validated configuration and the breaker that
  \<open>new Breaker(Request, this.config.fusebox)\<close> makes: it assigns \<open>this.breaker\<close>.
\<close>

definition constructor :: "scm_config \<Rightarrow> breaker_obj \<Rightarrow> GitlabScm" where
  "constructor cfg breaker = \<lparr>config = cfg, field = [''breaker'' \<mapsto> breaker]\<rparr>"

text \<open>
  How a call of an operation ends: it throws before returning, returns undefined, or
  returns a promise that resolves with a value or rejects with an error.
\<close>

datatype 'a completion = Throws error | ReturnsUndefined | Resolves 'a | Rejects error

definition settle :: "error + 'a \<Rightarrow> 'a completion" where
  "settle p = (case p of Inl e \<Rightarrow> Rejects e | Inr v \<Rightarrow> Resolves v)"

text \<open>\<open>x.then(f)\<close> on what a call returned; undefined has no \<open>then\<close>.\<close>

definition then_c :: "'a completion \<Rightarrow> ('a \<Rightarrow> error + 'b) \<Rightarrow> 'b completion" where
  "then_c c f =
     (case c of
        Throws e \<Rightarrow> Throws e
      | ReturnsUndefined \<Rightarrow> Throws TypeError
      | Resolves v \<Rightarrow> settle (f v)
      | Rejects e \<Rightarrow> Rejects e)"

text \<open>What a \<open>then\<close> callback yields when it returns the result of such a call.\<close>

definition returned :: "jsval completion \<Rightarrow> error + jsval" where
  "returned c =
     (case c of
        Throws e \<Rightarrow> Inl e
      | ReturnsUndefined \<Rightarrow> Inr JUndefined
      | Resolves v \<Rightarrow> Inr v
      | Rejects e \<Rightarrow> Inl e)"

text \<open>Issuing a request: the gateway answers and the request joins the trace.\<close>

definition issue :: "gateway \<Rightarrow> jsval \<Rightarrow> trace \<Rightarrow> (error + response) \<times> trace" where
  "issue g req tr = (g tr req, tr @ [req])"

text \<open>\<open>`${this.config.gitlabProtocol}://${this.config.gitlabHost}/api/v3<path>`\<close>\<close>

definition api_url :: "scm_config \<Rightarrow> string \<Rightarrow> string" where
  "api_url cfg path =
     gitlabProtocol cfg @ ''://'' @ opt_str (gitlabHost cfg) @ ''/api/v3'' @ path"

text \<open>The option object of the GET requests: json, method, bearer token, url.\<close>

definition get_request :: "string \<Rightarrow> string \<Rightarrow> jsval" where
  "get_request token url =
     JObj [(''json'', JBool True), (''method'', JStr ''GET''),
           (''auth'', JObj [(''bearer'', JStr token)]), (''url'', JStr url)]"

section \<open>Operations\<close>

text \<open>
  Each operation takes the trace of the requests issued before the call and returns how
  the call ends together with the trace after it. \<open>stringify\<close> is \<open>JSON.stringify\<close>.
\<close>

text \<open>
  \<open>lookupScmUri\<close> (lines 134-156). The breaker is read from \<open>this.Breaker\<close>;
  \<open>.runCommand\<close> on an undefined value is a TypeError, thrown before the option
  object is built and before anything is issued.
\<close>

definition lookupScmUri ::
  "(jsval \<Rightarrow> jsval) \<Rightarrow> GitlabScm \<Rightarrow> string \<Rightarrow> string \<Rightarrow> trace \<Rightarrow> jsval completion \<times> trace" where
  "lookupScmUri stringify this scmUri token tr =
     (case decodeScmUri scmUri of
        Inl e \<Rightarrow> (Throws e, tr)
      | Inr uri \<Rightarrow>
          (case field this ''Breaker'' of
             None \<Rightarrow> (Throws TypeError, tr)
           | Some b \<Rightarrow>
               let (p, tr') = issue (runCommand b)
                     (get_request token
                        (api_url (config this) (''/projects/'' @ opt_str (scmId uri))))
                     tr
               in (settle (then_do p (\<lambda>response.
                     then_do (checkResponseError stringify response) (\<lambda>_.
                     then_do (getProp (body response) ''path_with_namespace'') (\<lambda>pwn.
                     then_do (call_split pwn CHR ''/'') (\<lambda>parts.
                       Inr (JObj [(''branch'', opt_val (scmBranch uri)),
                                  (''host'', opt_val (scmHost uri)),
                                  (''repo'', opt_val (element parts 1)),
                                  (''owner'', opt_val (element parts 0))])))))),
                   tr')))"

text \<open>
  \<open>_parseUrl\<close> (lines 180-198): the checkout URL is parsed first, synchronously; the
  project is then looked up by its URL-encoded path and the SCM URI composed from the
  parsed host name, the project's id and the parsed branch.
\<close>

definition parseUrl ::
  "regex \<Rightarrow> (jsval \<Rightarrow> jsval) \<Rightarrow> GitlabScm \<Rightarrow> string \<Rightarrow> string \<Rightarrow> trace \<Rightarrow> jsval completion \<times> trace" where
  "parseUrl regex stringify this checkoutUrl token tr =
     (case getRepoInfo regex checkoutUrl of
        Inl e \<Rightarrow> (Throws e, tr)
      | Inr repoInfo \<Rightarrow>
          (case field this ''breaker'' of
             None \<Rightarrow> (Throws TypeError, tr)
           | Some b \<Rightarrow>
               let (p, tr') = issue (runCommand b)
                     (get_request token
                        (api_url (config this)
                           (''/projects/'' @ opt_str (username repoInfo) @ ''%2F''
                            @ opt_str (repo repoInfo))))
                     tr
               in (settle (then_do p (\<lambda>response.
                     then_do (checkResponseError stringify response) (\<lambda>_.
                     then_do (getProp (body response) ''id'') (\<lambda>projectId.
                     then_do (to_string projectId) (\<lambda>idText.
                       Inr (JStr (encodeScmUri (opt_str (hostname repoInfo)) idText
                                    (branch repoInfo)))))))),
                   tr')))"

text \<open>\<open>_decorateUrl\<close> (lines 273-286).\<close>

definition decorateUrl ::
  "(jsval \<Rightarrow> jsval) \<Rightarrow> GitlabScm \<Rightarrow> string \<Rightarrow> string \<Rightarrow> trace \<Rightarrow> jsval completion \<times> trace" where
  "decorateUrl stringify this scmUri token tr =
     (case lookupScmUri stringify this scmUri token tr of
        (c, tr') \<Rightarrow>
          (then_c c (\<lambda>scmInfo.
             then_do (getProp scmInfo ''host'') (\<lambda>host.
             then_do (getProp scmInfo ''owner'') (\<lambda>owner.
             then_do (getProp scmInfo ''repo'') (\<lambda>repoName.
             then_do (getProp scmInfo ''branch'') (\<lambda>branchName.
             then_do (to_string host) (\<lambda>hostText.
             then_do (to_string owner) (\<lambda>ownerText.
             then_do (to_string repoName) (\<lambda>repoText.
             then_do (to_string branchName) (\<lambda>branchText.
               let baseUrl = hostText @ ''/'' @ ownerText @ ''/'' @ repoText
               in Inr (JObj [(''branch'', branchName),
                             (''name'', JStr (ownerText @ ''/'' @ repoText)),
                             (''url'', JStr (''https://'' @ baseUrl @ ''/tree/''
                                            @ branchText))])))))))))),
           tr'))"

text \<open>
  \<open>_decorateAuthor\<close> (lines 343-364). The public \<open>decorateAuthor\<close> of the base class
  (package screwdriver-scm-base) hands its argument to this method. The option object,
  with the user name in the template literal of its url, is built before the breaker is
  reached.
\<close>

definition decorateAuthor ::
  "(jsval \<Rightarrow> jsval) \<Rightarrow> GitlabScm \<Rightarrow> jsval \<Rightarrow> string \<Rightarrow> trace \<Rightarrow> jsval completion \<times> trace" where
  "decorateAuthor stringify this login token tr =
     (case to_string login of
        Inl e \<Rightarrow> (Throws e, tr)
      | Inr loginText \<Rightarrow>
          (case field this ''breaker'' of
             None \<Rightarrow> (Throws TypeError, tr)
           | Some b \<Rightarrow>
               let (p, tr') = issue (runCommand b)
                     (get_request token
                        (api_url (config this) (''/users/username='' @ loginText)))
                     tr
               in (settle (then_do p (\<lambda>response.
                     then_do (checkResponseError stringify response) (\<lambda>_.
                     then_do (getProp (body response) ''avatar_url'') (\<lambda>avatar.
                     then_do (getProp (body response) ''name'') (\<lambda>name.
                     then_do (getProp (body response) ''username'') (\<lambda>uname.
                     then_do (getProp (body response) ''web_url'') (\<lambda>url.
                       Inr (JObj [(''avatar'', avatar), (''name'', name),
                                  (''username'', uname), (''url'', url)])))))))),
                   tr')))"

definition DEFAULT_AUTHOR :: jsval where
  "DEFAULT_AUTHOR =
     JObj [(''avatar'', JStr ''https://cd.screwdriver.cd/assets/unknown_user.png''),
           (''name'', JStr ''n/a''),
           (''username'', JStr ''n/a''),
           (''url'', JStr ''https://cd.screwdriver.cd/'')]"

text \<open>
  \<open>_decorateCommit\<close> (lines 297-333). \<open>commitLookup\<close> is the repository lookup
  followed by the commit request, \<open>authorLookup\<close> continues it, and the result joins
  both. A throw inside a \<open>then\<close> callback rejects the promise the \<open>then\<close> returned.
\<close>

definition authorLookup ::
  "(jsval \<Rightarrow> jsval) \<Rightarrow> GitlabScm \<Rightarrow> string \<Rightarrow> response \<Rightarrow> trace \<Rightarrow> (error + jsval) \<times> trace" where
  "authorLookup stringify this token commitData tr =
     (case getProp (response_obj commitData) ''author'' of
        Inl e \<Rightarrow> (Inl e, tr)
      | Inr author \<Rightarrow>
          if \<not> truthy author then (Inr DEFAULT_AUTHOR, tr)
          else (case getProp author ''login'' of
                  Inl e \<Rightarrow> (Inl e, tr)
                | Inr login \<Rightarrow>
                    (case decorateAuthor stringify this login token tr of
                       (c, tr') \<Rightarrow> (returned c, tr'))))"

definition decorateCommit ::
  "(jsval \<Rightarrow> jsval) \<Rightarrow> GitlabScm \<Rightarrow> string \<Rightarrow> string \<Rightarrow> string \<Rightarrow> trace \<Rightarrow> jsval completion \<times> trace" where
  "decorateCommit stringify this scmUri sha token tr =
     (case lookupScmUri stringify this scmUri token tr of
        (Throws e, tr1) \<Rightarrow> (Throws e, tr1)
      | (ReturnsUndefined, tr1) \<Rightarrow> (Throws TypeError, tr1)
      | (Rejects e, tr1) \<Rightarrow> (Rejects e, tr1)
      | (Resolves scmInfo, tr1) \<Rightarrow>
          (case field this ''breaker'' of
             None \<Rightarrow> (Rejects TypeError, tr1)
           | Some b \<Rightarrow>
               (case then_do (getProp scmInfo ''owner'') (\<lambda>owner.
                     then_do (getProp scmInfo ''repo'') (\<lambda>repoName.
                       Inr (JObj [(''action'', JStr ''getCommit''), (''token'', JStr token),
                                  (''params'', JObj [(''owner'', owner), (''repo'', repoName),
                                                     (''sha'', JStr sha)])]))) of
                  Inl e \<Rightarrow> (Rejects e, tr1)
                | Inr req \<Rightarrow>
                    (case issue (runCommand b) req tr1 of
                       (Inl e, tr2) \<Rightarrow> (Rejects e, tr2)
                     | (Inr commitData, tr2) \<Rightarrow>
                         (case authorLookup stringify this token commitData tr2 of
                            (Inl e, tr3) \<Rightarrow> (Rejects e, tr3)
                          | (Inr authorData, tr3) \<Rightarrow>
                              (settle
                                 (then_do (getProp (response_obj commitData) ''commit'') (\<lambda>commit.
                                  then_do (getProp commit ''message'') (\<lambda>message.
                                  then_do (getProp (response_obj commitData) ''html_url'') (\<lambda>url.
                                    Inr (JObj [(''author'', authorData), (''message'', message),
                                               (''url'', url)]))))),
                               tr3))))))"

text \<open>\<open>_getPermissions\<close> (lines 374-403): full access, whatever the project says.\<close>

definition getPermissions ::
  "(jsval \<Rightarrow> jsval) \<Rightarrow> GitlabScm \<Rightarrow> string \<Rightarrow> string \<Rightarrow> trace \<Rightarrow> jsval completion \<times> trace" where
  "getPermissions stringify this scmUri token tr =
     (case decodeScmUri scmUri of
        Inl e \<Rightarrow> (Throws e, tr)
      | Inr uri \<Rightarrow>
          (case field this ''breaker'' of
             None \<Rightarrow> (Throws TypeError, tr)
           | Some b \<Rightarrow>
               let (p, tr') = issue (runCommand b)
                     (get_request token
                        (api_url (config this) (''/projects/'' @ opt_str (scmId uri))))
                     tr
               in (settle (then_do p (\<lambda>response.
                     then_do (checkResponseError stringify response) (\<lambda>_.
                       Inr (JObj [(''admin'', JBool True), (''push'', JBool True),
                                  (''pull'', JBool True)])))),
                   tr')))"

text \<open>\<open>_getCommitSha\<close> (lines 413-432).\<close>

definition getCommitSha ::
  "(jsval \<Rightarrow> jsval) \<Rightarrow> GitlabScm \<Rightarrow> string \<Rightarrow> string \<Rightarrow> trace \<Rightarrow> jsval completion \<times> trace" where
  "getCommitSha stringify this scmUri token tr =
     (case decodeScmUri scmUri of
        Inl e \<Rightarrow> (Throws e, tr)
      | Inr uri \<Rightarrow>
          (case field this ''breaker'' of
             None \<Rightarrow> (Throws TypeError, tr)
           | Some b \<Rightarrow>
               let (p, tr') = issue (runCommand b)
                     (get_request token
                        (api_url (config this)
                           (''/projects/'' @ opt_str (scmId uri)
                            @ ''/repository/branches/'' @ opt_str (scmBranch uri))))
                     tr
               in (settle (then_do p (\<lambda>response.
                     then_do (checkResponseError stringify response) (\<lambda>_.
                     then_do (getProp (body response) ''commit'') (\<lambda>commit.
                       getProp commit ''id'')))),
                   tr')))"

text \<open>
  \<open>_updateCommitStatus\<close> (lines 446-466). The two tables are object literals keyed
  by the build status. \<open>table[key]\<close> gives the own entry when there is one; for a key
  that names a member of \<open>Object.prototype\<close> it gives that inherited member, and
  undefined for every other key.
\<close>

definition Object_prototype_members :: "string list" where
  "Object_prototype_members =
     [''constructor'', ''__defineGetter__'', ''__defineSetter__'', ''hasOwnProperty'',
      ''__lookupGetter__'', ''__lookupSetter__'', ''isPrototypeOf'', ''propertyIsEnumerable'',
      ''toString'', ''valueOf'', ''__proto__'', ''toLocaleString'']"

definition lookup_table :: "(string \<times> string) list \<Rightarrow> string \<Rightarrow> jsval" where
  "lookup_table table key =
     (case map_of table key of
        Some v \<Rightarrow> JStr v
      | None \<Rightarrow> if key \<in> set Object_prototype_members then JBuiltin key else JUndefined)"

definition STATE_MAP :: "(string \<times> string) list" where
  "STATE_MAP = [(''SUCCESS'', ''success''), (''RUNNING'', ''pending''), (''QUEUED'', ''pending'')]"

definition DESCRIPTION_MAP :: "(string \<times> string) list" where
  "DESCRIPTION_MAP =
     [(''SUCCESS'', ''Everything looks good!''),
      (''FAILURE'', ''Did not work as expected.''),
      (''ABORTED'', ''Aborted mid-flight''),
      (''RUNNING'', ''Testing your code...''),
      (''QUEUED'', ''Looking for a place to park...'')]"

text \<open>The option object \<open>requestOptions\<close> of lines 450-463; \<open>jobName\<close> is optional.\<close>

definition statusRequestOptions ::
  "scm_config \<Rightarrow> scm_uri \<Rightarrow> string \<Rightarrow> string \<Rightarrow> string \<Rightarrow> string option \<Rightarrow> string \<Rightarrow> jsval" where
  "statusRequestOptions cfg uri sha buildStatus token jobName url =
     (let context = (if truthy (opt_val jobName)
                     then ''Screwdriver/'' @ opt_str jobName
                     else ''Screwdriver'');
          state = lookup_table STATE_MAP buildStatus
      in JObj [(''json'', JBool True), (''method'', JStr ''POST''),
               (''auth'', JObj [(''bearer'', JStr token)]),
               (''url'', JStr (api_url cfg (''/projects/'' @ opt_str (scmId uri)
                                            @ ''/statuses/'' @ sha))),
               (''qs'', JObj [(''context'', JStr context),
                              (''description'', lookup_table DESCRIPTION_MAP buildStatus),
                              (''state'', if truthy state then state else JStr ''failure''),
                              (''target_url'', JStr url)])])"

text \<open>
  The method ends with \<open>return this.breaker(requestOptions)\<close>: the breaker object
  itself is called, not its \<open>runCommand\<close>, and what the call gives is returned as it
  is; \<open>checkResponseError\<close> does not occur in the method.
\<close>

definition updateCommitStatus ::
  "GitlabScm \<Rightarrow> string \<Rightarrow> string \<Rightarrow> string \<Rightarrow> string \<Rightarrow> string option \<Rightarrow> string \<Rightarrow> trace
     \<Rightarrow> jsval completion \<times> trace" where
  "updateCommitStatus this scmUri sha buildStatus token jobName url tr =
     (case decodeScmUri scmUri of
        Inl e \<Rightarrow> (Throws e, tr)
      | Inr uri \<Rightarrow>
          let requestOptions =
                statusRequestOptions (config this) uri sha buildStatus token jobName url
          in (case field this ''breaker'' of
                None \<Rightarrow> (Throws TypeError, tr)
              | Some b \<Rightarrow>
                  (case invoke b of
                     None \<Rightarrow> (Throws TypeError, tr)
                   | Some f \<Rightarrow>
                       let (p, tr') = issue f requestOptions tr
                       in (settle (then_do p (\<lambda>response. Inr (response_obj response))), tr'))))"

text \<open>
  \<open>_getFile\<close> (lines 479-501). The default of \<open>ref\<close> reads \<open>scmInfo.branch\<close>, and no
  \<open>scmInfo\<close> is declared in the method or the module: when \<open>config.ref\<close> is falsy the
  read is a ReferenceError. The breaker object is called as a function; the promise chain
  built on the call is the value of an expression statement, and the method has no
  \<open>return\<close>. \<open>decode\<close> is \<open>new Buffer(content, encoding).toString()\<close>, a builtin of
  the runtime.
\<close>

definition getFile ::
  "(jsval \<Rightarrow> jsval) \<Rightarrow> (jsval \<Rightarrow> jsval \<Rightarrow> error + jsval) \<Rightarrow> GitlabScm \<Rightarrow> string \<Rightarrow> string \<Rightarrow> string
     \<Rightarrow> jsval \<Rightarrow> trace \<Rightarrow> jsval completion \<times> trace" where
  "getFile stringify decode this scmUri path token ref tr =
     (case decodeScmUri scmUri of
        Inl e \<Rightarrow> (Throws e, tr)
      | Inr uri \<Rightarrow>
          if \<not> truthy ref then (Throws ReferenceError, tr)
          else
            let requestOptions =
                  JObj [(''json'', JBool True), (''method'', JStr ''GET''),
                        (''auth'', JObj [(''bearer'', JStr token)]),
                        (''url'', JStr (api_url (config this)
                                         (''/projects/'' @ opt_str (scmId uri)
                                          @ ''/repository/files''))),
                        (''qs'', JObj [(''file_path'', JStr path), (''ref'', ref)])]
            in (case field this ''breaker'' of
                  None \<Rightarrow> (Throws TypeError, tr)
                | Some b \<Rightarrow>
                    (case invoke b of
                       None \<Rightarrow> (Throws TypeError, tr)
                     | Some f \<Rightarrow>
                         let (p, tr') = issue f requestOptions tr;
                             chain = then_do p (\<lambda>response.
                                       then_do (checkResponseError stringify response) (\<lambda>_.
                                       then_do (getProp (body response) ''content'') (\<lambda>content.
                                       then_do (getProp (body response) ''encoding'') (\<lambda>encoding.
                                         decode content encoding))))
                         in (ReturnsUndefined, tr'))))"

section \<open>Observations on requests and adapters\<close>

text \<open>The query parameter \<open>requestOptions.qs[name]\<close> of a request, when it has one.\<close>

definition query_param :: "jsval \<Rightarrow> string \<Rightarrow> jsval option" where
  "query_param requestOptions name =
     (case own_property requestOptions ''qs'' of
        None \<Rightarrow> None
      | Some qs \<Rightarrow> own_property qs name)"

text \<open>Whether \<open>this.breaker\<close> is a value that can be called as a function.\<close>

definition callable :: "GitlabScm \<Rightarrow> bool" where
  "callable this =
     (case field this ''breaker'' of None \<Rightarrow> False | Some b \<Rightarrow> invoke b \<noteq> None)"

section \<open>Properties of the SCM URI codec\<close>

lemma split_str_no_sep: "sep \<notin> set s \<Longrightarrow> split_str sep s = [s]"
  by (induction s) auto

lemma split_str_field:
  "sep \<notin> set a \<Longrightarrow> split_str sep (a @ sep # cs) = a # split_str sep cs"
  by (induction a) auto

lemma split_str_not_Nil: "split_str sep s \<noteq> []"
  by (induction s) (auto split: list.splits)

lemma split_encoded:
  assumes "CHR '':'' \<notin> set h" "CHR '':'' \<notin> set i" "CHR '':'' \<notin> set b"
  shows "split_str CHR '':'' (encodeScmUri h i b) = [h, i, b]"
proof -
  have "split_str CHR '':'' (h @ CHR '':'' # (i @ CHR '':'' # b))
        = h # split_str CHR '':'' (i @ CHR '':'' # b)"
    using assms(1) by (rule split_str_field)
  also have "split_str CHR '':'' (i @ CHR '':'' # b) = i # split_str CHR '':'' b"
    using assms(2) by (rule split_str_field)
  also have "split_str CHR '':'' b = [b]"
    using assms(3) by (rule split_str_no_sep)
  finally show ?thesis by (simp add: encodeScmUri_def)
qed

text \<open>
  Claim C2. A triple of host, project id and branch, none of them empty and none
  containing a colon, survives the round trip: joining the three with colons (line 196)
  and splitting the result on colons (line 135) gives the three fields back.
\<close>

theorem scm_uri_round_trip:
  assumes "host \<noteq> []" "projectId \<noteq> []" "branchName \<noteq> []"
    and "CHR '':'' \<notin> set host" "CHR '':'' \<notin> set projectId"
    and "CHR '':'' \<notin> set branchName"
  shows "decodeScmUri (encodeScmUri host projectId branchName)
         = Inr \<lparr>scmHost = Some host, scmId = Some projectId, scmBranch = Some branchName\<rparr>"
  using split_encoded [OF assms(4-6)] by (simp add: decodeScmUri_def element_def)

theorem scm_uri_round_trip_witness:
  "decodeScmUri (encodeScmUri ''gitlab.example.com'' ''42'' ''dev'')
   = Inr \<lparr>scmHost = Some ''gitlab.example.com'', scmId = Some ''42'', scmBranch = Some ''dev''\<rparr>
   \<and> encodeScmUri ''gitlab.example.com'' ''42'' ''dev'' = ''gitlab.example.com:42:dev''"
  using scm_uri_round_trip [of "''gitlab.example.com''" "''42''" "''dev''"]
  by (simp add: encodeScmUri_def)

text \<open>
  Claim C3, as stated, fails: a string of two fields is decoded without any error, the
  branch being left undefined.
\<close>

theorem decodeScmUri_short_counterexample:
  "length (split_str CHR '':'' ''gitlab.example.com:42'') \<noteq> 3
   \<and> decodeScmUri ''gitlab.example.com:42''
       = Inr \<lparr>scmHost = Some ''gitlab.example.com'', scmId = Some ''42'', scmBranch = None\<rparr>"
  by (simp add: decodeScmUri_def element_def)

text \<open>
  Claim C3, amended. Decoding never fails, whatever the number of fields: the host is
  the first field, the project id the second and the branch the third, a field that is
  not there being undefined and the fields after the third being dropped.
\<close>

theorem decodeScmUri_never_fails:
  "decodeScmUri uri =
     Inr \<lparr>scmHost = Some (hd (split_str CHR '':'' uri)),
          scmId = (if 1 < length (split_str CHR '':'' uri)
                   then Some (split_str CHR '':'' uri ! 1) else None),
          scmBranch = (if 2 < length (split_str CHR '':'' uri)
                       then Some (split_str CHR '':'' uri ! 2) else None)\<rparr>"
  using split_str_not_Nil [of "CHR '':''" uri]
  by (simp add: decodeScmUri_def element_def hd_conv_nth Let_def)

theorem decodeScmUri_never_fails_witness:
  "decodeScmUri ''a:b:c:d''
   = Inr \<lparr>scmHost = Some ''a'', scmId = Some ''b'', scmBranch = Some ''c''\<rparr>
   \<and> length (split_str CHR '':'' ''a:b:c:d'') = 4"
  using decodeScmUri_never_fails [of "''a:b:c:d''"]
  by (simp add: decodeScmUri_def element_def)

section \<open>Properties of the response validation\<close>

lemma reach_path_structured:
  "''name'' \<notin> set path
   \<Longrightarrow> reach_path v path dflt
       = (case structured_field v path of None \<Rightarrow> dflt | Some w \<Rightarrow> w)"
proof (induction path arbitrary: v)
  case Nil
  show ?case by simp
next
  case (Cons key path)
  then have k: "key \<noteq> ''name''" and p: "''name'' \<notin> set path" by auto
  show ?case
  proof (cases v)
    case (JObj kvs)
    then show ?thesis using Cons.IH [OF p] by (simp add: own_property_def split: option.splits)
  next
    case (JBuiltin name)
    then show ?thesis using k by (simp add: own_property_def)
  qed (simp_all add: own_property_def)
qed

lemma reach_response_body:
  "''name'' \<notin> set path
   \<Longrightarrow> reach_path (response_obj r) (''body'' # path) dflt
       = (case structured_field (body r) path of None \<Rightarrow> dflt | Some w \<Rightarrow> w)"
  by (simp add: response_obj_def own_property_def reach_path_structured)

lemma reach_message:
  "reach_path (response_obj r) [''body'', ''error'', ''message''] dflt
   = (case structured_field (body r) [''error'', ''message''] of
        None \<Rightarrow> dflt | Some w \<Rightarrow> w)"
  by (rule reach_response_body) simp

lemma reach_required:
  "reach_path (response_obj r) [''body'', ''error'', ''detail'', ''required''] dflt
   = (case structured_field (body r) [''error'', ''detail'', ''required''] of
        None \<Rightarrow> dflt | Some w \<Rightarrow> w)"
  by (rule reach_response_body) simp

lemma chain_message:
  "split_str CHR ''.'' ''body.error.message'' = [''body'', ''error'', ''message'']"
  by simp

lemma chain_required:
  "split_str CHR ''.'' ''body.error.detail.required''
   = [''body'', ''error'', ''detail'', ''required'']"
  by simp

lemma all_of_fails: "all_of xs = Inl e \<Longrightarrow> \<exists>x \<in> set xs. x = Inl e"
  by (induction xs) (auto split: sum.splits)

lemma to_string_fails: "to_string v = Inl e \<Longrightarrow> e = TypeError"
proof (induction v arbitrary: e rule: to_string.induct)
  case (6 xs)
  then show ?case
    by (auto split: sum.splits if_splits dest!: all_of_fails)
qed (auto split: if_splits)

text \<open>
  Claim C1, as stated, fails: a response outside [200,300) whose \<open>body.error.message\<close>
  is an object with an own \<open>toString\<close> member cannot be converted by the template
  literal of line 63, and what is thrown is the runtime's TypeError, not an Error with
  the composed message.
\<close>

theorem checkResponseError_unprintable_counterexample:
  "checkResponseError (\<lambda>v. JStr ''{}'')
     \<lparr>statusCode = 404,
      body = JObj [(''error'', JObj [(''message'', JObj [(''toString'', JNum 1)])])],
      rest = []\<rparr>
   = Inl TypeError"
  by (simp add: checkResponseError_def Hoek_reach_def response_obj_def own_property_def
      then_do_def)

text \<open>
  Claim C1, amended. \<open>checkResponseError\<close> returns without throwing exactly when the
  status code is in [200,300), and throws for every other response. The error message is
  \<open>body.error.message\<close> when the body has that field and
  \<open>SCM service unavailable (<statusCode>).\<close> otherwise; the error reason is
  \<open>body.error.detail.required\<close> when the body has that field and the
  JSON-stringified body otherwise. When both convert to strings, what is thrown is an
  Error whose message is the error message, the text \<open> Reason "\<close>, the error reason
  and a closing quote; when one of them does not, it is a TypeError.
\<close>

theorem checkResponseError_contract:
  "(checkResponseError stringify r = Inr ()) = (200 \<le> statusCode r \<and> statusCode r < 300)
   \<and> (\<not> (200 \<le> statusCode r \<and> statusCode r < 300) \<longrightarrow>
        checkResponseError stringify r =
          (case to_string (case structured_field (body r) [''error'', ''message''] of
                             Some m \<Rightarrow> m
                           | None \<Rightarrow> JStr (''SCM service unavailable (''
                                            @ show_int (statusCode r) @ '').'')) of
             Inl e \<Rightarrow> Inl TypeError
           | Inr message \<Rightarrow>
               (case to_string
                       (case structured_field (body r) [''error'', ''detail'', ''required''] of
                          Some d \<Rightarrow> d
                        | None \<Rightarrow> stringify (body r)) of
                  Inl e \<Rightarrow> Inl TypeError
                | Inr reason \<Rightarrow>
                    Inl (Error (message @ '' Reason '' @ [CHR 0x22] @ reason @ [CHR 0x22])))))"
  unfolding checkResponseError_def Hoek_reach_def chain_message chain_required
    reach_message reach_required Let_def then_do_def
  by (auto split: option.splits sum.splits dest: to_string_fails)

theorem checkResponseError_contract_witness:
  "checkResponseError (\<lambda>v. JStr ''{}'') \<lparr>statusCode = 404, body = JObj [], rest = []\<rparr>
   = Inl (Error (''SCM service unavailable (404). Reason '' @ [CHR 0x22] @ ''{}'' @ [CHR 0x22]))
   \<and> checkResponseError (\<lambda>v. JStr ''{}'') \<lparr>statusCode = 204, body = JUndefined, rest = []\<rparr>
       = Inr ()"
  using
    checkResponseError_contract
      [of "\<lambda>v. JStr ''{}''" "\<lparr>statusCode = 404, body = JObj [], rest = []\<rparr>"]
    checkResponseError_contract
      [of "\<lambda>v. JStr ''{}''" "\<lparr>statusCode = 204, body = JUndefined, rest = []\<rparr>"]
  by (simp add: show_int_def digits.simps)

section \<open>Properties of the checkout URL parsing\<close>

text \<open>
  Claim C4, as stated, fails: on a string the pattern does not match, \<open>getRepoInfo\<close>
  reads a group of the null match, which is the runtime's TypeError and not a typed
  MalformedURLError.
\<close>

theorem getRepoInfo_unmatched_counterexample:
  "CHECKOUT_URL ''gitlab.example.com'' = None
   \<and> getRepoInfo CHECKOUT_URL ''gitlab.example.com'' = Inl TypeError"
  by (simp add: getRepoInfo_def CHECKOUT_URL_def is_space_def)

text \<open>
  Claim C4, amended. For every checkout URL that the pattern does not match, whatever
  the pattern, \<open>getRepoInfo\<close> returns no repository information: it fails with the
  runtime's TypeError.
\<close>

theorem getRepoInfo_unmatched:
  "regex checkoutUrl = None \<Longrightarrow> getRepoInfo regex checkoutUrl = Inl TypeError"
  by (simp add: getRepoInfo_def)

theorem getRepoInfo_unmatched_witness:
  "CHECKOUT_URL ''not a checkout url'' = None
   \<and> getRepoInfo CHECKOUT_URL ''not a checkout url'' = Inl TypeError"
proof -
  have h: "CHECKOUT_URL ''not a checkout url'' = None"
    by (simp add: CHECKOUT_URL_def is_space_def)
  show ?thesis
    using h getRepoInfo_unmatched [of CHECKOUT_URL "''not a checkout url''"] by simp
qed

text \<open>
  \<open>_parseUrl\<close> parses first: an unmatched checkout URL ends the call before any
  request is issued.
\<close>

lemma parseUrl_unmatched:
  "regex checkoutUrl = None
   \<Longrightarrow> parseUrl regex stringify this checkoutUrl token tr = (Throws TypeError, tr)"
  by (simp add: parseUrl_def getRepoInfo_def)

text \<open>
  When the branch group took part in the match, the branch is the group without its
  leading \<open>#\<close>.
\<close>

lemma getRepoInfo_branch:
  assumes "regex checkoutUrl = Some matched"
    and "matched_at matched MATCH_COMPONENT_BRANCH = Some (CHR ''#'' # branchRef)"
  shows "\<exists>info. getRepoInfo regex checkoutUrl = Inr info \<and> branch info = branchRef"
  using assms by (simp add: getRepoInfo_def)

lemma getRepoInfo_example:
  "getRepoInfo CHECKOUT_URL ''https://gitlab.example.com/group/proj#dev''
   = Inr \<lparr>hostname = Some ''gitlab.example.com'', repo = Some ''proj'', branch = ''dev'',
          username = Some ''group''\<rparr>"
  by (simp add: getRepoInfo_def CHECKOUT_URL_def is_space_def matched_at_def element_def Let_def
      MATCH_COMPONENT_BRANCH_def MATCH_COMPONENT_HOSTNAME_def MATCH_COMPONENT_REPO_def
      MATCH_COMPONENT_USER_def)

text \<open>
  Claim C5 at a checkout URL without \<open>#branchRef\<close>: the pattern matches, the branch
  group is undefined, and \<open>getRepoInfo\<close> ends in a TypeError (\<open>.slice(1)\<close> of
  undefined) where the claim has the default branch.
\<close>

theorem getRepoInfo_no_branch_suffix:
  "CHECKOUT_URL ''https://gitlab.example.com/group/proj''
   = Some [Some ''https://gitlab.example.com/group/proj'', Some ''gitlab.example.com'',
           Some ''group'', Some ''proj'', None]
   \<and> getRepoInfo CHECKOUT_URL ''https://gitlab.example.com/group/proj'' = Inl TypeError"
  by (simp add: getRepoInfo_def CHECKOUT_URL_def is_space_def matched_at_def element_def
      MATCH_COMPONENT_BRANCH_def)

section \<open>Properties of the commit status update\<close>

text \<open>
  For a build status that names no member of \<open>Object.prototype\<close> the request options
  carry the state \<open>success\<close> for SUCCESS, \<open>pending\<close> for RUNNING and QUEUED and
  \<open>failure\<close> for every other status, the description is the entry of
  DESCRIPTION_MAP, and the context is \<open>Screwdriver/<jobName>\<close> for a non-empty job
  name and \<open>Screwdriver\<close> otherwise.
\<close>

lemma state_of_status:
  assumes "buildStatus \<notin> set Object_prototype_members"
  shows "(let state = lookup_table STATE_MAP buildStatus
          in if truthy state then state else JStr ''failure'')
         = JStr (if buildStatus = ''SUCCESS'' then ''success''
                 else if buildStatus = ''RUNNING'' \<or> buildStatus = ''QUEUED'' then ''pending''
                 else ''failure'')"
  using assms by (simp add: STATE_MAP_def lookup_table_def)

lemma statusRequestOptions_state:
  assumes "buildStatus \<notin> set Object_prototype_members"
  shows "query_param (statusRequestOptions cfg uri sha buildStatus token jobName url) ''state''
         = Some (JStr (if buildStatus = ''SUCCESS'' then ''success''
                       else if buildStatus = ''RUNNING'' \<or> buildStatus = ''QUEUED''
                       then ''pending'' else ''failure''))"
  using state_of_status [OF assms]
  by (simp add: statusRequestOptions_def query_param_def own_property_def Let_def)

lemma statusRequestOptions_description:
  assumes "buildStatus \<notin> set Object_prototype_members"
  shows "query_param (statusRequestOptions cfg uri sha buildStatus token jobName url)
           ''description''
         = Some (opt_val (map_of DESCRIPTION_MAP buildStatus))"
  using assms
  by (simp add: statusRequestOptions_def query_param_def own_property_def Let_def
      lookup_table_def opt_val_def split: option.splits)

lemma description_of_SUCCESS:
  "map_of DESCRIPTION_MAP ''SUCCESS'' = Some ''Everything looks good!''"
  by (simp add: DESCRIPTION_MAP_def)

lemma statusRequestOptions_context:
  "query_param (statusRequestOptions cfg uri sha buildStatus token jobName url) ''context''
   = Some (JStr (case jobName of
                   None \<Rightarrow> ''Screwdriver''
                 | Some name \<Rightarrow> if name = [] then ''Screwdriver'' else ''Screwdriver/'' @ name))"
  by (simp add: statusRequestOptions_def query_param_def own_property_def Let_def opt_val_def
      opt_str_def split: option.splits)

text \<open>
  What \<open>updateCommitStatus\<close> does with the request options: nothing is issued and a
  TypeError is thrown unless \<open>this.breaker\<close> can be called as a function; when it
  can, the request options are the one request issued and the response the call resolves
  with is the result.
\<close>

lemma updateCommitStatus_outcome:
  assumes "decodeScmUri scmUri = Inr uri"
  shows "updateCommitStatus this scmUri sha buildStatus token jobName url tr =
           (case field this ''breaker'' of
              None \<Rightarrow> (Throws TypeError, tr)
            | Some b \<Rightarrow>
                (case invoke b of
                   None \<Rightarrow> (Throws TypeError, tr)
                 | Some f \<Rightarrow>
                     (case f tr (statusRequestOptions (config this) uri sha buildStatus token
                                   jobName url) of
                        Inl e \<Rightarrow> Rejects e
                      | Inr response \<Rightarrow> Resolves (response_obj response),
                      tr @ [statusRequestOptions (config this) uri sha buildStatus token
                              jobName url])))"
  using assms
  by (simp add: updateCommitStatus_def issue_def Let_def settle_def then_do_def
      split: option.splits sum.splits)

text \<open>
  Claim C6 at the build status \<open>constructor\<close>. The request options carry as state
  the function every object inherits under that name, which is truthy, and not
  \<open>failure\<close>; and on an adapter made by the constructor, whose breaker object cannot
  be called, the call throws a TypeError and no request reaches the provider. With a
  breaker object that can be called, those request options are the request issued.
\<close>

theorem updateCommitStatus_inherited_status:
  "query_param
     (statusRequestOptions \<lparr>gitlabProtocol = ''https'', gitlabHost = Some ''gitlab.example.com''\<rparr>
        \<lparr>scmHost = Some ''gitlab.example.com'', scmId = Some ''42'', scmBranch = Some ''dev''\<rparr>
        ''abc123'' ''constructor'' ''token'' (Some ''main'') ''https://ci/1'') ''state''
   = Some (JBuiltin ''constructor'')
   \<and> updateCommitStatus
     (constructor \<lparr>gitlabProtocol = ''https'', gitlabHost = Some ''gitlab.example.com''\<rparr>
        \<lparr>runCommand = (\<lambda>tr req. Inr \<lparr>statusCode = 201, body = JNull, rest = []\<rparr>),
         invoke = None\<rparr>)
     ''gitlab.example.com:42:dev'' ''abc123'' ''constructor'' ''token'' (Some ''main'')
     ''https://ci/1'' []
   = (Throws TypeError, [])
   \<and> snd (updateCommitStatus
     (constructor \<lparr>gitlabProtocol = ''https'', gitlabHost = Some ''gitlab.example.com''\<rparr>
        \<lparr>runCommand = (\<lambda>tr req. Inr \<lparr>statusCode = 201, body = JNull, rest = []\<rparr>),
         invoke = Some (\<lambda>tr req. Inr \<lparr>statusCode = 201, body = JNull, rest = []\<rparr>)\<rparr>)
     ''gitlab.example.com:42:dev'' ''abc123'' ''constructor'' ''token'' (Some ''main'')
     ''https://ci/1'' [])
   = [statusRequestOptions \<lparr>gitlabProtocol = ''https'', gitlabHost = Some ''gitlab.example.com''\<rparr>
        \<lparr>scmHost = Some ''gitlab.example.com'', scmId = Some ''42'', scmBranch = Some ''dev''\<rparr>
        ''abc123'' ''constructor'' ''token'' (Some ''main'') ''https://ci/1'']"
proof -
  have q: "query_param
     (statusRequestOptions \<lparr>gitlabProtocol = ''https'', gitlabHost = Some ''gitlab.example.com''\<rparr>
        \<lparr>scmHost = Some ''gitlab.example.com'', scmId = Some ''42'', scmBranch = Some ''dev''\<rparr>
        ''abc123'' ''constructor'' ''token'' (Some ''main'') ''https://ci/1'') ''state''
   = Some (JBuiltin ''constructor'')"
    by (simp add: statusRequestOptions_def query_param_def own_property_def Let_def
        lookup_table_def STATE_MAP_def Object_prototype_members_def)
  have d: "decodeScmUri ''gitlab.example.com:42:dev''
           = Inr \<lparr>scmHost = Some ''gitlab.example.com'', scmId = Some ''42'',
                  scmBranch = Some ''dev''\<rparr>"
    by (simp add: decodeScmUri_def element_def)
  show ?thesis
    using q by (simp add: updateCommitStatus_outcome [OF d] constructor_def)
qed

section \<open>Properties of the operations\<close>

lemma constructor_Breaker: "field (constructor cfg breaker) ''Breaker'' = None"
  by (simp add: constructor_def)

lemma lookupScmUri_no_Breaker:
  "field this ''Breaker'' = None
   \<Longrightarrow> lookupScmUri stringify this scmUri token tr = (Throws TypeError, tr)"
  by (simp add: lookupScmUri_def decodeScmUri_def Let_def)

text \<open>
  Claim C9. On an adapter made by the constructor, which assigns \<open>this.breaker\<close> and
  never \<open>this.Breaker\<close>, every call of \<open>lookupScmUri\<close>, and with it every call of
  \<open>decorateUrl\<close> and of \<open>decorateCommit\<close>, throws a TypeError, and the trace of
  requests is left as it was: no network request is attempted.
\<close>

theorem lookupScmUri_always_throws:
  "lookupScmUri stringify (constructor cfg breaker) scmUri token tr = (Throws TypeError, tr)
   \<and> decorateUrl stringify (constructor cfg breaker) scmUri token tr = (Throws TypeError, tr)
   \<and> decorateCommit stringify (constructor cfg breaker) scmUri sha token tr
       = (Throws TypeError, tr)"
  using lookupScmUri_no_Breaker [OF constructor_Breaker, of stringify cfg breaker scmUri token tr]
  by (simp add: decorateUrl_def decorateCommit_def then_c_def)

theorem lookupScmUri_always_throws_witness:
  "lookupScmUri (\<lambda>v. JStr ''{}'')
     (constructor \<lparr>gitlabProtocol = ''https'', gitlabHost = Some ''gitlab.example.com''\<rparr>
        \<lparr>runCommand = (\<lambda>tr req. Inr \<lparr>statusCode = 200,
                          body = JObj [(''path_with_namespace'', JStr ''group/proj'')],
                          rest = []\<rparr>),
         invoke = None\<rparr>)
     ''gitlab.example.com:42:dev'' ''token'' []
   = (Throws TypeError, [])"
  using lookupScmUri_always_throws
    [of "\<lambda>v. JStr ''{}''"
        "\<lparr>gitlabProtocol = ''https'', gitlabHost = Some ''gitlab.example.com''\<rparr>"
        "\<lparr>runCommand = (\<lambda>tr req. Inr \<lparr>statusCode = 200,
                          body = JObj [(''path_with_namespace'', JStr ''group/proj'')],
                          rest = []\<rparr>),
         invoke = None\<rparr>"
        "''gitlab.example.com:42:dev''" "''token''" "[]"]
  by simp

text \<open>
  The continuation of the commit lookup in \<open>decorateCommit\<close>: a commit without an
  author gives the default author, and the trace is not touched.
\<close>

lemma authorLookup_no_author:
  assumes "getProp (response_obj commitData) ''author'' = Inr author" and "\<not> truthy author"
  shows "authorLookup stringify this token commitData tr = (Inr DEFAULT_AUTHOR, tr)"
  using assms by (simp add: authorLookup_def)

lemma getProp_obj:
  "getProp (JObj kvs) key = Inr (case map_of kvs key of None \<Rightarrow> JUndefined | Some v \<Rightarrow> v)"
  by (simp add: getProp_def own_property_def split: option.splits)

text \<open>
  If the repository lookup of \<open>decorateCommit\<close> resolved, a commit without an author
  would add the commit request alone to the trace, and a result would have the default
  author.
\<close>

lemma decorateCommit_default_author:
  assumes "lookupScmUri stringify this scmUri token tr = (Resolves (JObj info), tr1)"
    and "field this ''breaker'' = Some b"
    and "\<forall>req. runCommand b tr1 req = Inr commitData"
    and "getProp (response_obj commitData) ''author'' = Inr author" and "\<not> truthy author"
  shows "length (snd (decorateCommit stringify this scmUri sha token tr)) = Suc (length tr1)"
    and "fst (decorateCommit stringify this scmUri sha token tr) = Resolves result
         \<Longrightarrow> own_property result ''author'' = Some DEFAULT_AUTHOR"
proof -
  have a: "authorLookup stringify this token commitData t = (Inr DEFAULT_AUTHOR, t)" for t
    using assms(4,5) by (rule authorLookup_no_author)
  show "length (snd (decorateCommit stringify this scmUri sha token tr)) = Suc (length tr1)"
    using assms(1,2,3) a
    by (simp add: decorateCommit_def issue_def getProp_obj then_do_def)
  show "own_property result ''author'' = Some DEFAULT_AUTHOR"
    if "fst (decorateCommit stringify this scmUri sha token tr) = Resolves result"
    using that assms(1,2,3) a
    by (auto simp: decorateCommit_def issue_def settle_def then_do_def own_property_def
        getProp_obj split: sum.splits)
qed

text \<open>
  An object that has a breaker under every property name, \<open>Breaker\<close> included (the
  constructor makes no such object), shows the two lemmas at work: repository lookup,
  commit request, no author request, and the default author in the result.
\<close>

lemma decorateCommit_example:
  "decorateCommit (\<lambda>v. JStr ''{}'')
     \<lparr>config = \<lparr>gitlabProtocol = ''https'', gitlabHost = Some ''gitlab.example.com''\<rparr>,
      field = (\<lambda>name. Some \<lparr>runCommand = (\<lambda>tr req. Inr \<lparr>statusCode = 200,
                          body = JObj [(''path_with_namespace'', JStr ''group/proj'')],
                          rest = [(''commit'', JObj [(''message'', JStr ''fix'')]),
                                  (''html_url'', JStr ''https://gitlab.example.com/c/1'')]\<rparr>),
         invoke = None\<rparr>)\<rparr>
     ''gitlab.example.com:42:dev'' ''abc123'' ''token'' []
   = (Resolves (JObj [(''author'', DEFAULT_AUTHOR), (''message'', JStr ''fix''),
                      (''url'', JStr ''https://gitlab.example.com/c/1'')]),
      [get_request ''token'' ''https://gitlab.example.com/api/v3/projects/42'',
       JObj [(''action'', JStr ''getCommit''), (''token'', JStr ''token''),
             (''params'', JObj [(''owner'', JStr ''group''), (''repo'', JStr ''proj''),
                                (''sha'', JStr ''abc123'')])]])"
  by (simp add: decorateCommit_def lookupScmUri_def decodeScmUri_def Let_def issue_def settle_def
      then_do_def checkResponseError_def getProp_def own_property_def call_split_def
      element_def opt_val_def opt_str_def api_url_def authorLookup_def response_obj_def)

text \<open>
  Claim C7 at a call on an adapter made by the constructor, the provider answering with
  a commit that has no author: the call throws a TypeError in \<open>lookupScmUri\<close> before
  any lookup, so there is no result whose author could be the default author. The defect
  is the read of \<open>this.Breaker\<close>, the one of claim C9.
\<close>

theorem decorateCommit_no_author_fails:
  "decorateCommit (\<lambda>v. JStr ''{}'')
     (constructor \<lparr>gitlabProtocol = ''https'', gitlabHost = Some ''gitlab.example.com''\<rparr>
        \<lparr>runCommand = (\<lambda>tr req. Inr \<lparr>statusCode = 200,
                          body = JObj [(''path_with_namespace'', JStr ''group/proj'')],
                          rest = [(''commit'', JObj [(''message'', JStr ''fix'')]),
                                  (''html_url'', JStr ''https://gitlab.example.com/c/1'')]\<rparr>),
         invoke = None\<rparr>)
     ''gitlab.example.com:42:dev'' ''abc123'' ''token'' []
   = (Throws TypeError, [])"
  by (simp add: decorateCommit_def lookupScmUri_def decodeScmUri_def constructor_def Let_def)

text \<open>
  The operations that go through \<open>runCommand\<close> validate the response before they
  read it: a status code outside [200,300) rejects the promise with what
  \<open>checkResponseError\<close> throws.
\<close>

lemma check_rejects:
  assumes "\<not> (200 \<le> statusCode r \<and> statusCode r < 300)"
  shows "\<exists>e. checkResponseError stringify r = Inl e"
  using assms by (auto simp: checkResponseError_def Let_def then_do_def split: sum.splits)

lemma getCommitSha_rejects_non_2xx:
  assumes "field this ''breaker'' = Some b"
    and "\<forall>req. runCommand b tr req = Inr r"
    and "\<not> (200 \<le> statusCode r \<and> statusCode r < 300)"
  shows "\<exists>e. fst (getCommitSha stringify this scmUri token tr) = Rejects e"
proof -
  from check_rejects [OF assms(3)] obtain e
    where "checkResponseError stringify r = Inl e" by blast
  with assms(1,2) show ?thesis
    by (simp add: getCommitSha_def decodeScmUri_def Let_def issue_def settle_def then_do_def)
qed

lemma getPermissions_rejects_non_2xx:
  assumes "field this ''breaker'' = Some b"
    and "\<forall>req. runCommand b tr req = Inr r"
    and "\<not> (200 \<le> statusCode r \<and> statusCode r < 300)"
  shows "\<exists>e. fst (getPermissions stringify this scmUri token tr) = Rejects e"
proof -
  from check_rejects [OF assms(3)] obtain e
    where "checkResponseError stringify r = Inl e" by blast
  with assms(1,2) show ?thesis
    by (simp add: getPermissions_def decodeScmUri_def Let_def issue_def settle_def then_do_def)
qed

lemma decorateAuthor_rejects_non_2xx:
  assumes "to_string login = Inr loginText"
    and "field this ''breaker'' = Some b"
    and "\<forall>req. runCommand b tr req = Inr r"
    and "\<not> (200 \<le> statusCode r \<and> statusCode r < 300)"
  shows "\<exists>e. fst (decorateAuthor stringify this login token tr) = Rejects e"
proof -
  from check_rejects [OF assms(4)] obtain e
    where "checkResponseError stringify r = Inl e" by blast
  with assms(1,2,3) show ?thesis
    by (simp add: decorateAuthor_def Let_def issue_def settle_def then_do_def)
qed

lemma parseUrl_rejects_non_2xx:
  assumes "getRepoInfo regex checkoutUrl = Inr repoInfo"
    and "field this ''breaker'' = Some b"
    and "\<forall>req. runCommand b tr req = Inr r"
    and "\<not> (200 \<le> statusCode r \<and> statusCode r < 300)"
  shows "\<exists>e. fst (parseUrl regex stringify this checkoutUrl token tr) = Rejects e"
proof -
  from check_rejects [OF assms(4)] obtain e
    where "checkResponseError stringify r = Inl e" by blast
  with assms(1,2,3) show ?thesis
    by (simp add: parseUrl_def Let_def issue_def settle_def then_do_def)
qed

text \<open>
  The scenario of the spec: the checkout URL
  \<open>https://gitlab.example.com/group/proj#dev\<close>, the project lookup answering with id
  42, resolves to the SCM URI \<open>gitlab.example.com:42:dev\<close>.
\<close>

lemma parseUrl_scenario:
  "parseUrl CHECKOUT_URL stringify
     (constructor \<lparr>gitlabProtocol = ''https'', gitlabHost = Some ''gitlab.example.com''\<rparr>
        \<lparr>runCommand = (\<lambda>tr req. Inr \<lparr>statusCode = 200, body = JObj [(''id'', JNum 42)],
                                         rest = []\<rparr>),
         invoke = None\<rparr>)
     ''https://gitlab.example.com/group/proj#dev'' ''token'' []
   = (Resolves (JStr ''gitlab.example.com:42:dev''),
      [get_request ''token'' ''https://gitlab.example.com/api/v3/projects/group%2Fproj''])"
  by (simp add: parseUrl_def getRepoInfo_def CHECKOUT_URL_def is_space_def matched_at_def
      element_def Let_def MATCH_COMPONENT_BRANCH_def MATCH_COMPONENT_HOSTNAME_def
      MATCH_COMPONENT_REPO_def MATCH_COMPONENT_USER_def constructor_def issue_def settle_def
      then_do_def checkResponseError_def getProp_def own_property_def encodeScmUri_def
      opt_val_def opt_str_def show_int_def digits.simps api_url_def)

text \<open>
  \<open>updateCommitStatus\<close> does not validate: when the breaker object can be called,
  whatever response the call resolves with is the result.
\<close>

lemma updateCommitStatus_resolves_any_status:
  assumes "field this ''breaker'' = Some b"
    and "invoke b = Some f"
    and "\<forall>req. f tr req = Inr r"
  shows "fst (updateCommitStatus this scmUri sha buildStatus token jobName url tr)
         = Resolves (response_obj r)"
  using assms
  by (simp add: updateCommitStatus_def decodeScmUri_def Let_def issue_def settle_def then_do_def)

text \<open>
  Claim C8 at \<open>updateCommitStatus\<close>, the provider answering 500. With a breaker
  object that can be called, the call resolves with the 500 response: the promise is not
  rejected. With a breaker object that cannot be called, as the constructor's
  \<open>new Breaker(...)\<close> gives, the operation throws a TypeError and issues no request.
  In neither case does \<open>checkResponseError\<close> run.
\<close>

theorem updateCommitStatus_unvalidated:
  "updateCommitStatus
     (constructor \<lparr>gitlabProtocol = ''https'', gitlabHost = Some ''gitlab.example.com''\<rparr>
        \<lparr>runCommand = (\<lambda>tr req. Inr \<lparr>statusCode = 500, body = JNull, rest = []\<rparr>),
         invoke = Some (\<lambda>tr req. Inr \<lparr>statusCode = 500, body = JNull, rest = []\<rparr>)\<rparr>)
     ''gitlab.example.com:42:dev'' ''abc123'' ''SUCCESS'' ''token'' None ''https://ci/1'' []
   = (Resolves (JObj [(''statusCode'', JNum 500), (''body'', JNull)]),
      [statusRequestOptions \<lparr>gitlabProtocol = ''https'', gitlabHost = Some ''gitlab.example.com''\<rparr>
         \<lparr>scmHost = Some ''gitlab.example.com'', scmId = Some ''42'', scmBranch = Some ''dev''\<rparr>
         ''abc123'' ''SUCCESS'' ''token'' None ''https://ci/1''])
   \<and> updateCommitStatus
     (constructor \<lparr>gitlabProtocol = ''https'', gitlabHost = Some ''gitlab.example.com''\<rparr>
        \<lparr>runCommand = (\<lambda>tr req. Inr \<lparr>statusCode = 500, body = JNull, rest = []\<rparr>),
         invoke = None\<rparr>)
     ''gitlab.example.com:42:dev'' ''abc123'' ''SUCCESS'' ''token'' None ''https://ci/1'' []
   = (Throws TypeError, [])"
  by (simp add: updateCommitStatus_def decodeScmUri_def constructor_def Let_def issue_def
      then_do_def settle_def response_obj_def element_def)

text \<open>
  Claim C10, as stated, fails: without \<open>config.ref\<close> the method does not return
  undefined, it throws a ReferenceError (the undeclared \<open>scmInfo\<close>) before the breaker
  is reached, even when the breaker object can be called.
\<close>

theorem getFile_no_ref_counterexample:
  "getFile (\<lambda>v. JStr ''{}'') (\<lambda>content encoding. Inr content)
     (constructor \<lparr>gitlabProtocol = ''https'', gitlabHost = Some ''gitlab.example.com''\<rparr>
        \<lparr>runCommand = (\<lambda>tr req. Inr \<lparr>statusCode = 200, body = JNull, rest = []\<rparr>),
         invoke = Some (\<lambda>tr req. Inr \<lparr>statusCode = 200, body = JNull, rest = []\<rparr>)\<rparr>)
     ''gitlab.example.com:42:dev'' ''screwdriver.yaml'' ''token'' JUndefined []
   = (Throws ReferenceError, [])"
  by (simp add: getFile_def decodeScmUri_def Let_def)

text \<open>
  Claim C10, amended. For every input \<open>getFile\<close> delivers neither the file text nor a
  failure of the request to its caller, since it never returns a promise: it throws a
  ReferenceError when \<open>config.ref\<close> is falsy; otherwise it returns undefined when the
  breaker object can be called, the promise chain being built and dropped, and throws a
  TypeError when it cannot.
\<close>

theorem getFile_delivers_nothing:
  "fst (getFile stringify decode this scmUri path token ref tr)
   = (if \<not> truthy ref then Throws ReferenceError
      else if callable this then ReturnsUndefined
      else Throws TypeError)"
  by (simp add: getFile_def decodeScmUri_def Let_def callable_def
      split: option.splits prod.splits)

theorem getFile_delivers_nothing_witness:
  "fst (getFile (\<lambda>v. JStr ''{}'') (\<lambda>content encoding. Inr content)
     (constructor \<lparr>gitlabProtocol = ''https'', gitlabHost = Some ''gitlab.example.com''\<rparr>
        \<lparr>runCommand = (\<lambda>tr req. Inr \<lparr>statusCode = 404, body = JNull, rest = []\<rparr>),
         invoke = Some (\<lambda>tr req. Inr \<lparr>statusCode = 404, body = JNull, rest = []\<rparr>)\<rparr>)
     ''gitlab.example.com:42:dev'' ''screwdriver.yaml'' ''token'' (JStr ''master'') [])
   = ReturnsUndefined"
  using getFile_delivers_nothing
    [of "\<lambda>v. JStr ''{}''" "\<lambda>content encoding. Inr content"
        "constructor \<lparr>gitlabProtocol = ''https'', gitlabHost = Some ''gitlab.example.com''\<rparr>
           \<lparr>runCommand = (\<lambda>tr req. Inr \<lparr>statusCode = 404, body = JNull, rest = []\<rparr>),
            invoke = Some (\<lambda>tr req. Inr \<lparr>statusCode = 404, body = JNull, rest = []\<rparr>)\<rparr>"
        "''gitlab.example.com:42:dev''" "''screwdriver.yaml''" "''token''" "JStr ''master''" "[]"]
  by (simp add: callable_def constructor_def)

end
